theory Spec2Isabelle
  imports Main
begin

section \<open>JavaScript values and thrown errors\<close>

text \<open>
  The plugin is TypeScript; the parts of the JavaScript value model that its control flow
  depends on are truthiness (\<open>!x\<close>, \<open>x ? a : b\<close>, \<open>x || y\<close>), \<open>typeof\<close>, and
  the conversion of \<open>undefined\<close> to the string \<open>undefined\<close> where a property key or a
  template literal needs a string. A field that the code tests for absence is an
  \<open>option\<close> (\<open>None\<close> is \<open>undefined\<close> or \<open>null\<close>); a field whose type the code tests
  is a \<open>js_value\<close>. Numbers are integers (the catalog's durations are whole seconds),
  and \<open>None\<close> in a duration stands for a missing number and for the \<open>NaN\<close> that
  arithmetic on it gives; both are falsy.
\<close>

datatype js_value = JUndefined | JNull | JString string | JNumber int | JBoolean bool

fun truthy :: "js_value \<Rightarrow> bool" where
  "truthy JUndefined = False"
| "truthy JNull = False"
| "truthy (JString s) = (s \<noteq> [])"
| "truthy (JNumber n) = (n \<noteq> 0)"
| "truthy (JBoolean b) = b"

fun typeof :: "js_value \<Rightarrow> string" where
  "typeof JUndefined = ''undefined''"
| "typeof JNull = ''object''"
| "typeof (JString s) = ''string''"
| "typeof (JNumber n) = ''number''"
| "typeof (JBoolean b) = ''boolean''"

text \<open>Truthiness of a value that is a string when present.\<close>

fun truthy_string :: "string option \<Rightarrow> bool" where
  "truthy_string None = False"
| "truthy_string (Some s) = (s \<noteq> [])"

text \<open>\<open>String(x)\<close> for a string that may be \<open>undefined\<close>.\<close>

fun to_string :: "string option \<Rightarrow> string" where
  "to_string None = ''undefined''"
| "to_string (Some s) = s"

text \<open>
  A thrown value. \<open>ReferenceError\<close> and \<open>TypeError\<close> are the errors the plugin raises
  itself (explicitly, or by reading a property of \<open>null\<close>, whose message text is the
  engine's); \<open>Rejection message loadType\<close> is whatever the HTTP client rejects with, of
  which the plugin reads \<open>e.message\<close> and \<open>e.loadType\<close> only.
\<close>

datatype js_error =
    ReferenceError string
  | TypeError string
  | Rejection "string option" "string option"

fun err_message :: "js_error \<Rightarrow> string option" where
  "err_message (ReferenceError m) = Some m"
| "err_message (TypeError m) = Some m"
| "err_message (Rejection m l) = m"

fun err_loadType :: "js_error \<Rightarrow> string option" where
  "err_loadType (ReferenceError m) = None"
| "err_loadType (TypeError m) = None"
| "err_loadType (Rejection m l) = l"

section \<open>The URL pattern\<close>

text \<open>
  \<open>REGEX\<close> uses literals, the classes \<open>\d\<close> and \<open>\w\<close> (ASCII digits; ASCII letters,
  digits and the underscore), sequence, alternation, the greedy quantifiers \<open>?\<close> and
  \<open>+\<close>, and two capture groups. A backtracking matcher is the list of its successes in
  the order the engine tries them: each success is the rest of the input and the
  captures so far. \<open>\w{2}\<close> is written as two \<open>\w\<close> in sequence. The empty alternative
  inside the optional scheme group leaves the input where the skipped group leaves it,
  so it adds no success that the skip does not give.
\<close>

datatype char_class = Digit | Word

fun in_class :: "char_class \<Rightarrow> char \<Rightarrow> bool" where
  "in_class Digit c = (c \<in> set ''0123456789'')"
| "in_class Word c =
     (c \<in> set ''abcdefghijklmnopqrstuvwxyzABCDEFGHIJKLMNOPQRSTUVWXYZ0123456789_'')"

datatype regex =
    Lit string
  | Cls char_class
  | Seq regex regex
  | Alt regex regex
  | Opt regex
  | Plus char_class
  | Grp nat regex

type_synonym captures = "nat \<rightharpoonup> string"

fun strip_prefix :: "string \<Rightarrow> string \<Rightarrow> string option" where
  "strip_prefix [] s = Some s"
| "strip_prefix (p # ps) [] = None"
| "strip_prefix (p # ps) (c # cs) = (if p = c then strip_prefix ps cs else None)"

fun run :: "regex \<Rightarrow> string \<times> captures \<Rightarrow> (string \<times> captures) list" where
  "run (Lit p) (s, c) = (case strip_prefix p s of None \<Rightarrow> [] | Some r \<Rightarrow> [(r, c)])"
| "run (Cls k) (s, c) =
     (case s of [] \<Rightarrow> [] | x # r \<Rightarrow> if in_class k x then [(r, c)] else [])"
| "run (Seq a b) st = concat (map (run b) (run a st))"
| "run (Alt a b) st = run a st @ run b st"
| "run (Opt a) st = run a st @ [st]"
| "run (Plus k) (s, c) =
     map (\<lambda>n. (drop n s, c)) (rev [1 ..< Suc (length (takeWhile (in_class k) s))])"
| "run (Grp i a) (s, c) =
     map (\<lambda>(r, c'). (r, c'(i \<mapsto> take (length s - length r) s))) (run a (s, c))"

text \<open>
  \<open>s.match(re)\<close> for a pattern that starts with \<open>^\<close> and has no flags: the match is
  attempted at index 0 only, and the first success gives the captures.
\<close>

definition rx_match :: "regex \<Rightarrow> string \<Rightarrow> captures option" where
  "rx_match re s = (case run re (s, Map.empty) of [] \<Rightarrow> None | (r, c) # _ \<Rightarrow> Some c)"

definition BASE_URL :: string where
  "BASE_URL = ''https://api.deezer.com''"

text \<open>
  \<^verbatim>\<open>/^(?:https?:\/\/|)?(?:www\.)?deezer\.com\/(?:\w{2}\/)?(track|album|playlist)\/(\d+)/\<close>
\<close>

definition REGEX :: regex where
  "REGEX =
     Seq (Opt (Alt (Seq (Lit ''http'') (Seq (Opt (Lit ''s'')) (Lit ''://''))) (Lit '''')))
    (Seq (Opt (Lit ''www.''))
    (Seq (Lit ''deezer.com/'')
    (Seq (Opt (Seq (Cls Word) (Seq (Cls Word) (Lit ''/''))))
    (Seq (Grp 1 (Alt (Lit ''track'') (Alt (Lit ''album'') (Lit ''playlist''))))
    (Seq (Lit ''/'')
         (Grp 2 (Plus Digit)))))))"

text \<open>
  \<^verbatim>\<open>const [, type, id] = finalQuery.match(REGEX) ?? [];\<close>: both are \<open>undefined\<close>
  when there is no match.
\<close>

definition match_type_id :: "string \<Rightarrow> string option \<times> string option" where
  "match_type_id s = (case rx_match REGEX s of None \<Rightarrow> (None, None) | Some c \<Rightarrow> (c 1, c 2))"

text \<open>The classifier of the specification: the kind and the id, or none.\<close>

definition classify :: "string \<Rightarrow> (string \<times> string) option" where
  "classify s =
     (case match_type_id s of (Some k, Some i) \<Rightarrow> Some (k, i) | _ \<Rightarrow> None)"

section \<open>Catalog payloads and tracks\<close>

text \<open>
  The interfaces \<open>DeezerTrack\<close>, \<open>Album\<close>, \<open>Playlist\<close> (with its items
  \<open>{track: DeezerTrack}\<close>), \<open>UnresolvedQuery\<close>, \<open>Result\<close>, \<open>SearchResult\<close> and
  \<open>DeezerOptions\<close>. The options are as the constructor's \<open>check\<close> leaves them: each
  absent or of its declared type.
\<close>

record deezer_artist =
  artist_name :: string

record deezer_track =
  artist :: "deezer_artist option"
  title :: js_value
  duration :: "int option"

record album =
  album_name :: "string option"
  album_tracks_data :: "deezer_track list"

record playlist_item =
  track :: deezer_track

record playlist =
  playlist_name :: "string option"
  playlist_tracks_data :: "playlist_item list"

text \<open>\<open>UnresolvedQuery\<close>, what the normalizer returns.\<close>

record unresolved_query =
  uq_title :: string
  uq_author :: string
  uq_duration :: "int option"

text \<open>\<open>Result\<close>, what a fetcher returns; the track fetcher leaves the name out.\<close>

record result =
  res_tracks :: "unresolved_query list"
  res_name :: "string option"

text \<open>
  The host library's track object as far as the plugin reads it: the query's fields and
  the requester. \<open>TrackUtils.buildUnresolved(query, requester)\<close> copies the fields of
  the query and attaches the requester unchanged; it throws for an undefined query
  only, which the normalizer never returns.
\<close>

record 'r unresolved_track =
  t_title :: string
  t_author :: string
  t_duration :: "int option"
  t_requester :: 'r

definition buildUnresolved :: "unresolved_query \<Rightarrow> 'r \<Rightarrow> 'r unresolved_track" where
  "buildUnresolved q requester =
     \<lparr>t_title = uq_title q, t_author = uq_author q, t_duration = uq_duration q,
      t_requester = requester\<rparr>"

record playlist_info =
  pl_name :: string
  pl_duration :: int

record exception_info =
  message :: string
  severity :: string

record 'r search_result =
  loadType :: string
  tracks :: "'r unresolved_track list"
  playlist :: "playlist_info option"
  exception :: "exception_info option"

record deezer_options =
  playlistLimit :: "int option"
  albumLimit :: "int option"
  convertUnresolved :: "bool option"

text \<open>
  The three catalog endpoints behind \<open>Axios.get\<close>, each from the requested URL to the
  response body or the rejection.
\<close>

record catalog =
  get_track :: "string \<Rightarrow> js_error + deezer_track option"
  get_album :: "string \<Rightarrow> js_error + album"
  get_playlist :: "string \<Rightarrow> js_error + playlist"

section \<open>The result builder\<close>

text \<open>
  \<open>cur.duration || 0\<close>, and the \<open>reduce\<close> that adds it up from 0.
\<close>

definition duration_or_0 :: "'r unresolved_track \<Rightarrow> int" where
  "duration_or_0 cur = (case t_duration cur of None \<Rightarrow> 0 | Some d \<Rightarrow> d)"

definition buildSearch ::
  "string \<Rightarrow> 'r unresolved_track list option \<Rightarrow> string option \<Rightarrow> string option
     \<Rightarrow> js_error + 'r search_result" where
  "buildSearch loadType' tracks' error name' =
     (case (if truthy_string name'
            then (case tracks' of
                    None \<Rightarrow> Inl (TypeError ''Cannot read properties of null (reading reduce)'')
                  | Some ts \<Rightarrow>
                      Inr (Some \<lparr>pl_name = to_string name',
                                 pl_duration = foldl (\<lambda>acc cur. acc + duration_or_0 cur) 0 ts\<rparr>))
            else Inr None) of
        Inl e \<Rightarrow> Inl e
      | Inr pl \<Rightarrow>
          Inr \<lparr>loadType = loadType',
               tracks = (case tracks' of None \<Rightarrow> [] | Some ts \<Rightarrow> ts),
               playlist = pl,
               exception =
                 (if truthy_string error
                  then Some \<lparr>message = to_string error, severity = ''COMMON''\<rparr>
                  else None)\<rparr>)"

section \<open>The normalizer and the fetchers\<close>

definition convertToUnresolved :: "deezer_track option \<Rightarrow> js_error + unresolved_query" where
  "convertToUnresolved track' =
     (case track' of
        None \<Rightarrow> Inl (ReferenceError ''The Deezer track object was not provided'')
      | Some t \<Rightarrow>
          (case artist t of
             None \<Rightarrow> Inl (ReferenceError ''The track artist array was not provided'')
           | Some a \<Rightarrow>
               if \<not> truthy (title t)
               then Inl (ReferenceError ''The track title was not provided'')
               else (case title t of
                       JString s \<Rightarrow>
                         Inr \<lparr>uq_title = s, uq_author = artist_name a,
                              uq_duration = map_option (\<lambda>d. d * 1000) (duration t)\<rparr>
                     | v \<Rightarrow>
                         Inl (TypeError
                           (''The track name must be a string, received type '' @ typeof v)))))"

text \<open>
  \<open>xs.map(f)\<close> with a callback that may throw: the first exception, in order, ends the
  whole map.
\<close>

fun map_throwing :: "('a \<Rightarrow> js_error + 'b) \<Rightarrow> 'a list \<Rightarrow> js_error + 'b list" where
  "map_throwing f [] = Inr []"
| "map_throwing f (x # xs) =
     (case f x of
        Inl e \<Rightarrow> Inl e
      | Inr y \<Rightarrow> (case map_throwing f xs of Inl e \<Rightarrow> Inl e | Inr ys \<Rightarrow> Inr (y # ys)))"

text \<open>\<open>.filter((item) => item !== null)\<close> and \<open>.filter((track) => !!track)\<close>.\<close>

fun filter_nonnull :: "'a option list \<Rightarrow> 'a list" where
  "filter_nonnull [] = []"
| "filter_nonnull (None # xs) = filter_nonnull xs"
| "filter_nonnull (Some x # xs) = x # filter_nonnull xs"

text \<open>
  The value of \<open>xs.splice(0, n)\<close>: the removed elements, \<open>min(max(n, 0), length)\<close> of
  them from the front.
\<close>

definition splice_front :: "'a list \<Rightarrow> int \<Rightarrow> 'a list" where
  "splice_front xs n = take (nat (min (max n 0) (int (length xs)))) xs"

text \<open>\<open>limit ? tracks.splice(0, limit) : tracks\<close>\<close>

definition apply_limit :: "int option \<Rightarrow> 'a list \<Rightarrow> 'a list" where
  "apply_limit limit xs =
     (case limit of
        None \<Rightarrow> xs
      | Some n \<Rightarrow> if n \<noteq> 0 then splice_front xs n else xs)"

text \<open>
  The callback of the album's and the playlist's \<open>map\<close>:
  \<open>item.title ? Deezer.convertToUnresolved(item) : null\<close>.
\<close>

definition normalize_titled :: "deezer_track \<Rightarrow> js_error + unresolved_query option" where
  "normalize_titled item =
     (if truthy (title item)
      then (case convertToUnresolved (Some item) of Inl e \<Rightarrow> Inl e | Inr q \<Rightarrow> Inr (Some q))
      else Inr None)"

text \<open>
  A fetcher returns the URLs it requested together with its result or the exception it
  ends with.
\<close>

definition getAlbumTracks ::
  "deezer_options \<Rightarrow> catalog \<Rightarrow> string \<Rightarrow> string list \<times> (js_error + result)" where
  "getAlbumTracks options cat ident =
     (let url = BASE_URL @ ''/album/'' @ ident in
      ([url],
       case get_album cat url of
         Inl e \<Rightarrow> Inl e
       | Inr album' \<Rightarrow>
           (case map_throwing normalize_titled (album_tracks_data album') of
              Inl e \<Rightarrow> Inl e
            | Inr mapped \<Rightarrow>
                Inr \<lparr>res_tracks = apply_limit (albumLimit options) (filter_nonnull mapped),
                     res_name =
                       Some (if truthy_string (album_name album')
                             then to_string (album_name album') else ''Untitled album'')\<rparr>)))"

definition getPlaylistTracks ::
  "deezer_options \<Rightarrow> catalog \<Rightarrow> string \<Rightarrow> string list \<times> (js_error + result)" where
  "getPlaylistTracks options cat ident =
     (let url = BASE_URL @ ''/playlist/'' @ ident in
      ([url],
       case get_playlist cat url of
         Inl e \<Rightarrow> Inl e
       | Inr playlist' \<Rightarrow>
           (case map_throwing (\<lambda>item. normalize_titled (track item))
                   (playlist_tracks_data playlist') of
              Inl e \<Rightarrow> Inl e
            | Inr mapped \<Rightarrow>
                Inr \<lparr>res_tracks = apply_limit (playlistLimit options) (filter_nonnull mapped),
                     res_name =
                       Some (if truthy_string (playlist_name playlist')
                             then to_string (playlist_name playlist')
                             else ''Untitled playlist'')\<rparr>)))"

definition getTrack :: "catalog \<Rightarrow> string \<Rightarrow> string list \<times> (js_error + result)" where
  "getTrack cat ident =
     (let url = BASE_URL @ ''/track/'' @ ident in
      ([url],
       case get_track cat url of
         Inl e \<Rightarrow> Inl e
       | Inr data \<Rightarrow>
           (case convertToUnresolved data of
              Inl e \<Rightarrow> Inl e
            | Inr track' \<Rightarrow> Inr \<lparr>res_tracks = [track'], res_name = None\<rparr>)))"

section \<open>The search interceptor\<close>

text \<open>The table \<open>this.functions\<close> that the constructor fills.\<close>

definition plugin_functions ::
  "deezer_options \<Rightarrow> catalog \<Rightarrow> string \<rightharpoonup> (string \<Rightarrow> string list \<times> (js_error + result))" where
  "plugin_functions options cat =
     [''track'' \<mapsto> getTrack cat,
      ''album'' \<mapsto> getAlbumTracks options cat,
      ''playlist'' \<mapsto> getPlaylistTracks options cat]"

text \<open>
  The callback of \<open>data.tracks.map\<close>: the track is built, and with \<open>convertUnresolved\<close>
  it is resolved in place; a resolver that throws gives \<open>null\<close>. The resolver is the
  host's, taken as the function from the track to the track it leaves behind or the
  exception it throws.
\<close>

definition resolve_or_null ::
  "deezer_options \<Rightarrow> ('r unresolved_track \<Rightarrow> js_error + 'r unresolved_track) \<Rightarrow> 'r
     \<Rightarrow> unresolved_query \<Rightarrow> 'r unresolved_track option" where
  "resolve_or_null options resolve requester query =
     (let track' = buildUnresolved query requester in
      if convertUnresolved options = Some True
      then (case resolve track' of Inl e \<Rightarrow> None | Inr resolved \<Rightarrow> Some resolved)
      else Some track')"

text \<open>
  The outcome of a search: the promise of the host's own search, returned as it is; a
  result the plugin built; or an exception that leaves \<open>search\<close>.
\<close>

datatype ('r, 'h) outcome =
    Delegated 'h
  | Built "'r search_result"
  | Raised js_error

text \<open>The argument of \<open>search\<close>: a string or a \<open>SearchQuery\<close> object.\<close>

datatype search_query =
    QString string
  | QObject "string option" string

text \<open>
  The body of the \<open>try\<close> block for a type that is a key of \<open>this.functions\<close>, with the
  requests made.
\<close>

definition try_block ::
  "deezer_options \<Rightarrow> catalog \<Rightarrow> ('r unresolved_track \<Rightarrow> js_error + 'r unresolved_track)
     \<Rightarrow> string option \<Rightarrow> string option \<Rightarrow> 'r
     \<Rightarrow> string list \<times> (js_error + 'r search_result)" where
  "try_block options cat resolve type' ident requester =
     (case plugin_functions options cat (to_string type') of
        Some func \<Rightarrow>
          (case func (to_string ident) of
             (reqs, Inl e) \<Rightarrow> (reqs, Inl e)
           | (reqs, Inr data) \<Rightarrow>
               (let loadType' =
                      (if type' = Some ''track'' then ''TRACK_LOADED'' else ''PLAYLIST_LOADED'');
                    name' =
                      (if to_string type' \<in> set [''playlist'', ''album'']
                       then Some (if truthy_string (res_name data)
                                  then to_string (res_name data) else ''Untitled'')
                       else None);
                    tracks' =
                      filter_nonnull
                        (map (resolve_or_null options resolve requester) (res_tracks data))
                in (reqs, buildSearch loadType' (Some tracks') None name')))
      | None \<Rightarrow>
          ([], buildSearch ''LOAD_FAILED'' None
                 (Some (''Incorrect type for Deezer URL, must be one of ''
                        @ [CHR 0x22] @ ''track'' @ [CHR 0x22] @ '', ''
                        @ [CHR 0x22] @ ''album'' @ [CHR 0x22] @ '' or ''
                        @ [CHR 0x22] @ ''playlist'' @ [CHR 0x22] @ ''.''))
                 None))"

text \<open>
  \<open>search\<close> on the string that \<open>finalQuery\<close> is: the match, the test
  \<open>type in this.functions\<close>, the \<open>try\<close> block with its \<open>catch\<close>, and the delegation to
  the captured \<open>_search\<close> with the arguments as they came.
\<close>

definition search_string ::
  "deezer_options \<Rightarrow> catalog \<Rightarrow> ('r unresolved_track \<Rightarrow> js_error + 'r unresolved_track)
     \<Rightarrow> (search_query \<Rightarrow> 'r \<Rightarrow> 'h) \<Rightarrow> search_query \<Rightarrow> 'r \<Rightarrow> string
     \<Rightarrow> string list \<times> ('r, 'h) outcome" where
  "search_string options cat resolve search' query requester finalQuery =
     (case match_type_id finalQuery of
        (type', ident) \<Rightarrow>
          if to_string type' \<in> dom (plugin_functions options cat)
          then (case try_block options cat resolve type' ident requester of
                  (reqs, Inr r) \<Rightarrow> (reqs, Built r)
                | (reqs, Inl e) \<Rightarrow>
                    (reqs,
                     case buildSearch
                            (case err_loadType e of None \<Rightarrow> ''LOAD_FAILED'' | Some l \<Rightarrow> l)
                            None (err_message e) None of
                       Inr r \<Rightarrow> Built r
                     | Inl e' \<Rightarrow> Raised e'))
          else ([], Delegated (search' query requester)))"

text \<open>
  \<^verbatim>\<open>const finalQuery = (query as SearchQuery).query || (query as string);\<close>
  A string has no \<open>query\<close> property, so it is its own final query. An object's text is
  the final query when it is not empty; otherwise the final query is the object itself,
  which has no \<open>match\<close> method, and the call throws before the \<open>try\<close> block.
\<close>

definition search ::
  "deezer_options \<Rightarrow> catalog \<Rightarrow> ('r unresolved_track \<Rightarrow> js_error + 'r unresolved_track)
     \<Rightarrow> (search_query \<Rightarrow> 'r \<Rightarrow> 'h) \<Rightarrow> search_query \<Rightarrow> 'r
     \<Rightarrow> string list \<times> ('r, 'h) outcome" where
  "search options cat resolve search' query requester =
     (case query of
        QString s \<Rightarrow> search_string options cat resolve search' query requester s
      | QObject source text' \<Rightarrow>
          if text' \<noteq> []
          then search_string options cat resolve search' query requester text'
          else ([], Raised (TypeError ''finalQuery.match is not a function'')))"

section \<open>The specification's words\<close>

text \<open>
  Definitions that follow the specification's words, to state the claims with. The
  query string of a search argument is the string itself, or the object's text.
\<close>

definition query_text :: "search_query \<Rightarrow> string" where
  "query_text query = (case query of QString s \<Rightarrow> s | QObject source text' \<Rightarrow> text')"

text \<open>
  The specification's words for the pattern: an optional scheme, an optional \<open>www.\<close>,
  the catalog host, an optional two-letter locale segment, the entity kind, and the
  numeric id, which is the whole run of digits that follows the kind.
\<close>

definition spec_catalog_url :: "string \<Rightarrow> string \<Rightarrow> string \<Rightarrow> bool" where
  "spec_catalog_url s k i =
     (\<exists>scheme www loc rest.
        s = scheme @ www @ ''deezer.com/'' @ loc @ k @ ''/'' @ i @ rest
        \<and> scheme \<in> {[], ''http://'', ''https://''}
        \<and> www \<in> {[], ''www.''}
        \<and> (loc = [] \<or> (\<exists>a b. loc = [a, b, CHR ''/''] \<and> in_class Word a \<and> in_class Word b))
        \<and> k \<in> {''track'', ''album'', ''playlist''}
        \<and> i \<noteq> [] \<and> (\<forall>c\<in>set i. in_class Digit c)
        \<and> (case rest of [] \<Rightarrow> True | c # _ \<Rightarrow> \<not> in_class Digit c))"

text \<open>
  The specification's words for when the normalizer fails: the raw record is absent, the
  artist field is absent, the title is absent, or the title is not a string.
\<close>

definition spec_normalize_fails :: "deezer_track option \<Rightarrow> bool" where
  "spec_normalize_fails raw =
     (case raw of
        None \<Rightarrow> True
      | Some t \<Rightarrow>
          artist t = None \<or> title t = JUndefined \<or> title t = JNull
          \<or> typeof (title t) \<noteq> ''string'')"

section \<open>Sample inputs\<close>

text \<open>
  Concrete catalog data, options, resolvers and a host search, for the evaluations below.
\<close>

definition sample_track :: "string \<Rightarrow> int \<Rightarrow> deezer_track" where
  "sample_track t d =
     \<lparr>artist = Some \<lparr>artist_name = ''Artist''\<rparr>, title = JString t, duration = Some d\<rparr>"

text \<open>What the normalizer makes of \<open>sample_track t d\<close>.\<close>

definition sample_query :: "string \<Rightarrow> int \<Rightarrow> unresolved_query" where
  "sample_query t d = \<lparr>uq_title = t, uq_author = ''Artist'', uq_duration = Some (d * 1000)\<rparr>"

definition sample_album :: album where
  "sample_album =
     \<lparr>album_name = Some ''Album'',
      album_tracks_data =
        [sample_track ''one'' 1, sample_track ''two'' 2, sample_track ''three'' 3,
         sample_track ''four'' 4, sample_track ''five'' 5]\<rparr>"

definition not_found :: js_error where
  "not_found = Rejection (Some ''Request failed with status code 404'') None"

text \<open>A catalog with one track, one album and one playlist.\<close>

definition sample_playlist :: playlist where
  "sample_playlist =
     \<lparr>playlist_name = None,
      playlist_tracks_data =
        [\<lparr>track = sample_track ''one'' 1\<rparr>, \<lparr>track = sample_track ''two'' 2\<rparr>,
         \<lparr>track = sample_track ''three'' 3\<rparr>]\<rparr>"

definition sample_catalog :: catalog where
  "sample_catalog =
     \<lparr>get_track = (\<lambda>url. if url = ''https://api.deezer.com/track/3''
                          then Inr (Some (sample_track ''three'' 215)) else Inl not_found),
      get_album = (\<lambda>url. if url = ''https://api.deezer.com/album/7''
                          then Inr sample_album else Inl not_found),
      get_playlist = (\<lambda>url. if url = ''https://api.deezer.com/playlist/123456''
                             then Inr sample_playlist else Inl not_found)\<rparr>"

definition limit_options :: "int option \<Rightarrow> deezer_options" where
  "limit_options n = \<lparr>playlistLimit = n, albumLimit = n, convertUnresolved = None\<rparr>"

text \<open>Records with an artist and without a usable title.\<close>

definition empty_title_track :: deezer_track where
  "empty_title_track =
     \<lparr>artist = Some \<lparr>artist_name = ''Artist''\<rparr>, title = JString '''', duration = Some 200\<rparr>"

definition untitled_track :: deezer_track where
  "untitled_track =
     \<lparr>artist = Some \<lparr>artist_name = ''Artist''\<rparr>, title = JUndefined, duration = Some 200\<rparr>"

text \<open>
  A catalog whose album 1 and playlist 1 hold a record without a title between two valid
  ones, whose album 2 and playlist 2 hold the two valid ones only, and whose track 1 has
  no title.
\<close>

definition gappy_catalog :: catalog where
  "gappy_catalog =
     \<lparr>get_track = (\<lambda>url. if url = ''https://api.deezer.com/track/1''
                          then Inr (Some untitled_track) else Inl not_found),
      get_album = (\<lambda>url.
         if url = ''https://api.deezer.com/album/1''
         then Inr \<lparr>album_name = Some ''Album'',
                   album_tracks_data =
                     [sample_track ''one'' 1] @ untitled_track # [sample_track ''two'' 2]\<rparr>
         else if url = ''https://api.deezer.com/album/2''
         then Inr \<lparr>album_name = Some ''Album'',
                   album_tracks_data = [sample_track ''one'' 1] @ [sample_track ''two'' 2]\<rparr>
         else Inl not_found),
      get_playlist = (\<lambda>url.
         if url = ''https://api.deezer.com/playlist/1''
         then Inr \<lparr>playlist_name = None,
                   playlist_tracks_data =
                     [\<lparr>track = sample_track ''one'' 1\<rparr>] @ \<lparr>track = untitled_track\<rparr>
                       # [\<lparr>track = sample_track ''two'' 2\<rparr>]\<rparr>
         else if url = ''https://api.deezer.com/playlist/2''
         then Inr \<lparr>playlist_name = None,
                   playlist_tracks_data =
                     [\<lparr>track = sample_track ''one'' 1\<rparr>] @ [\<lparr>track = sample_track ''two'' 2\<rparr>]\<rparr>
         else Inl not_found)\<rparr>"


definition sample_host :: "search_query \<Rightarrow> string \<Rightarrow> search_query \<times> string" where
  "sample_host query requester = (query, requester)"

definition failing_resolver ::
  "string unresolved_track \<Rightarrow> js_error + string unresolved_track" where
  "failing_resolver t = Inl (Rejection (Some ''No tracks found'') None)"


text \<open>A catalog whose requests are all rejected with an error of empty message.\<close>

definition silent_catalog :: catalog where
  "silent_catalog =
     \<lparr>get_track = (\<lambda>url. Inl (Rejection (Some []) None)),
      get_album = (\<lambda>url. Inl (Rejection (Some []) None)),
      get_playlist = (\<lambda>url. Inl (Rejection (Some []) None))\<rparr>"

section \<open>Properties of the result builder\<close>


lemma buildSearch_no_tracks_no_name:
  "\<exists>r. buildSearch lt None err None = Inr r"
  by (simp add: buildSearch_def)

text \<open>
  C9. The result builder is not total: with the tracks argument absent (\<open>null\<close>) and a
  non-empty playlist name, the duration is added up over the absent argument itself and
  the call throws a \<open>TypeError\<close> instead of returning an outcome with empty tracks. The
  default \<open>tracks ?? []\<close> protects the outcome's tracks field only: without a name the
  same call returns an outcome with no tracks, and with the empty sequence supplied the
  named call returns a summary of duration 0.
\<close>

theorem buildSearch_absent_tracks:
  assumes "name' \<noteq> []"
  shows "buildSearch lt None err (Some name') =
           (Inl (TypeError ''Cannot read properties of null (reading reduce)'')
              :: js_error + 'r search_result)
         \<and> buildSearch lt None err None =
           (Inr \<lparr>loadType = lt, tracks = [], playlist = None,
                 exception = (if truthy_string err
                              then Some \<lparr>message = to_string err, severity = ''COMMON''\<rparr>
                              else None)\<rparr> :: js_error + 'r search_result)
         \<and> buildSearch lt (Some []) err (Some name') =
           (Inr \<lparr>loadType = lt, tracks = [],
                 playlist = Some \<lparr>pl_name = name', pl_duration = 0\<rparr>,
                 exception = (if truthy_string err
                              then Some \<lparr>message = to_string err, severity = ''COMMON''\<rparr>
                              else None)\<rparr> :: js_error + 'r search_result)"
  using assms by (simp add: buildSearch_def)

theorem buildSearch_absent_tracks_witness:
  "''Untitled'' \<noteq> []
   \<and> buildSearch ''PLAYLIST_LOADED'' None None (Some ''Untitled'') =
       (Inl (TypeError ''Cannot read properties of null (reading reduce)'')
          :: js_error + unit search_result)
   \<and> buildSearch ''PLAYLIST_LOADED'' None None None =
       (Inr \<lparr>loadType = ''PLAYLIST_LOADED'', tracks = [], playlist = None,
             exception = None\<rparr> :: js_error + unit search_result)"
  using buildSearch_absent_tracks [of "''Untitled''" "''PLAYLIST_LOADED''" None,
      where ?'r = unit]
  by simp

section \<open>Properties of the fetchers\<close>

subsection \<open>Limits\<close>

text \<open>
  When every record with a title normalizes, the \<open>map\<close> and the \<open>filter\<close> of a fetcher
  give the normalized records in catalog order.
\<close>

lemma map_throwing_normalize_titled:
  "map (\<lambda>t. convertToUnresolved (Some t)) (filter (\<lambda>t. truthy (title t)) xs) = map Inr ns
   \<Longrightarrow> \<exists>mapped. map_throwing normalize_titled xs = Inr mapped \<and> filter_nonnull mapped = ns"
proof (induction xs arbitrary: ns)
  case Nil
  then show ?case by simp
next
  case (Cons x xs)
  show ?case
  proof (cases "truthy (title x)")
    case False
    with Cons.prems have "map (\<lambda>t. convertToUnresolved (Some t)) (filter (\<lambda>t. truthy (title t)) xs) = map Inr ns"
      by simp
    from Cons.IH [OF this] obtain mapped where
      "map_throwing normalize_titled xs = Inr mapped" "filter_nonnull mapped = ns" by blast
    moreover from False have "normalize_titled x = Inr None"
      by (simp add: normalize_titled_def)
    ultimately show ?thesis by simp
  next
    case True
    with Cons.prems obtain q qs where ns: "ns = q # qs"
      and q: "convertToUnresolved (Some x) = Inr q"
      and rest: "map (\<lambda>t. convertToUnresolved (Some t)) (filter (\<lambda>t. truthy (title t)) xs) = map Inr qs"
      by (cases ns) auto
    from Cons.IH [OF rest] obtain mapped where
      "map_throwing normalize_titled xs = Inr mapped" "filter_nonnull mapped = qs" by blast
    moreover from True q have "normalize_titled x = Inr (Some q)"
      by (simp add: normalize_titled_def)
    ultimately show ?thesis using ns by simp
  qed
qed

lemma map_throwing_comp: "map_throwing (\<lambda>x. f (g x)) xs = map_throwing f (map g xs)"
  by (induction xs) (simp_all split: sum.splits)

text \<open>
  C6. For every configured positive album limit \<open>n\<close> and every fetched album whose
  titled records all normalize (to the sequence \<open>ns\<close>, in catalog order), the album
  fetcher returns after its one request, and its tracks are the first
  \<open>min n (length ns)\<close> elements of \<open>ns\<close>: a prefix of the normalized sequence. The
  limit bounds the number of tracks returned, not the number of requests. With limit 2
  and five valid tracks the result is the first two.
\<close>

theorem album_limit_prefix:
  assumes "albumLimit options = Some n" and "0 < n"
    and "get_album cat (BASE_URL @ ''/album/'' @ ident) = Inr a"
    and "map (\<lambda>t. convertToUnresolved (Some t))
           (filter (\<lambda>t. truthy (title t)) (album_tracks_data a)) = map Inr ns"
  shows "\<exists>r. getAlbumTracks options cat ident = ([BASE_URL @ ''/album/'' @ ident], Inr r)
             \<and> res_tracks r = take (min (nat n) (length ns)) ns"
proof -
  from map_throwing_normalize_titled [OF assms(4)] obtain mapped where
    m: "map_throwing normalize_titled (album_tracks_data a) = Inr mapped"
       "filter_nonnull mapped = ns" by blast
  from assms(2) have "nat (min (max n 0) (int (length ns))) = min (nat n) (length ns)"
    by linarith
  with assms(1-3) m show ?thesis
    by (simp add: getAlbumTracks_def apply_limit_def splice_front_def)
qed

theorem album_limit_prefix_witness:
  "albumLimit (limit_options (Some 2)) = Some 2 \<and> (0::int) < 2
   \<and> get_album sample_catalog (BASE_URL @ ''/album/'' @ ''7'') = Inr sample_album
   \<and> map (\<lambda>t. convertToUnresolved (Some t))
        (filter (\<lambda>t. truthy (title t)) (album_tracks_data sample_album))
      = map Inr [sample_query ''one'' 1, sample_query ''two'' 2, sample_query ''three'' 3,
                 sample_query ''four'' 4, sample_query ''five'' 5]
   \<and> (\<exists>r. getAlbumTracks (limit_options (Some 2)) sample_catalog ''7''
            = ([''https://api.deezer.com/album/7''], Inr r)
          \<and> res_tracks r = [sample_query ''one'' 1, sample_query ''two'' 2])"
proof -
  have h1: "albumLimit (limit_options (Some 2)) = Some 2"
    by (simp add: limit_options_def)
  have h2: "(0::int) < 2" by simp
  have h3: "get_album sample_catalog (BASE_URL @ ''/album/'' @ ''7'') = Inr sample_album"
    by (simp add: sample_catalog_def BASE_URL_def)
  have h4: "map (\<lambda>t. convertToUnresolved (Some t))
        (filter (\<lambda>t. truthy (title t)) (album_tracks_data sample_album))
      = map Inr [sample_query ''one'' 1, sample_query ''two'' 2, sample_query ''three'' 3,
                 sample_query ''four'' 4, sample_query ''five'' 5]"
    by (simp add: sample_album_def sample_track_def sample_query_def convertToUnresolved_def)
  from album_limit_prefix [OF h1 h2 h3 h4] h1 h2 h3 h4 show ?thesis
    by (simp add: BASE_URL_def)
qed

text \<open>
  C10. A configured album or playlist limit of 0 means no limit, not the empty prefix:
  for every fetched album or playlist whose titled records all normalize, the fetcher
  with the corresponding limit option 0 or absent returns the whole normalized sequence.
\<close>

theorem zero_limit_untruncated:
  "(albumLimit options = None \<or> albumLimit options = Some 0
      \<longrightarrow> get_album cat (BASE_URL @ ''/album/'' @ ident) = Inr a
      \<longrightarrow> map (\<lambda>t. convertToUnresolved (Some t))
            (filter (\<lambda>t. truthy (title t)) (album_tracks_data a)) = map Inr ns
      \<longrightarrow> (\<exists>r. snd (getAlbumTracks options cat ident) = Inr r \<and> res_tracks r = ns))
   \<and> (playlistLimit options = None \<or> playlistLimit options = Some 0
      \<longrightarrow> get_playlist cat (BASE_URL @ ''/playlist/'' @ ident') = Inr p
      \<longrightarrow> map (\<lambda>t. convertToUnresolved (Some t))
            (filter (\<lambda>t. truthy (title t)) (map track (playlist_tracks_data p))) = map Inr ms
      \<longrightarrow> (\<exists>r. snd (getPlaylistTracks options cat ident') = Inr r \<and> res_tracks r = ms))"
proof (intro conjI impI)
  assume lim: "albumLimit options = None \<or> albumLimit options = Some 0"
    and got: "get_album cat (BASE_URL @ ''/album/'' @ ident) = Inr a"
    and ok: "map (\<lambda>t. convertToUnresolved (Some t))
            (filter (\<lambda>t. truthy (title t)) (album_tracks_data a)) = map Inr ns"
  from map_throwing_normalize_titled [OF ok] obtain mapped where
    "map_throwing normalize_titled (album_tracks_data a) = Inr mapped"
    "filter_nonnull mapped = ns" by blast
  with lim got show "\<exists>r. snd (getAlbumTracks options cat ident) = Inr r \<and> res_tracks r = ns"
    by (auto simp: getAlbumTracks_def apply_limit_def)
next
  assume lim: "playlistLimit options = None \<or> playlistLimit options = Some 0"
    and got: "get_playlist cat (BASE_URL @ ''/playlist/'' @ ident') = Inr p"
    and ok: "map (\<lambda>t. convertToUnresolved (Some t))
            (filter (\<lambda>t. truthy (title t)) (map track (playlist_tracks_data p))) = map Inr ms"
  from map_throwing_normalize_titled [OF ok] obtain mapped where
    "map_throwing normalize_titled (map track (playlist_tracks_data p)) = Inr mapped"
    "filter_nonnull mapped = ms" by blast
  then have "map_throwing (\<lambda>item. normalize_titled (track item)) (playlist_tracks_data p) = Inr mapped"
    "filter_nonnull mapped = ms"
    by (simp_all add: map_throwing_comp)
  with lim got show "\<exists>r. snd (getPlaylistTracks options cat ident') = Inr r \<and> res_tracks r = ms"
    by (auto simp: getPlaylistTracks_def apply_limit_def)
qed

theorem zero_limit_untruncated_witness:
  "albumLimit (limit_options (Some 0)) = Some 0
   \<and> get_album sample_catalog (BASE_URL @ ''/album/'' @ ''7'') = Inr sample_album
   \<and> (\<exists>r. snd (getAlbumTracks (limit_options (Some 0)) sample_catalog ''7'') = Inr r
          \<and> res_tracks r =
              [sample_query ''one'' 1, sample_query ''two'' 2, sample_query ''three'' 3,
               sample_query ''four'' 4, sample_query ''five'' 5])
   \<and> playlistLimit (limit_options (Some 0)) = Some 0
   \<and> get_playlist sample_catalog (BASE_URL @ ''/playlist/'' @ ''123456'') = Inr sample_playlist
   \<and> (\<exists>r. snd (getPlaylistTracks (limit_options (Some 0)) sample_catalog ''123456'') = Inr r
          \<and> res_tracks r =
              [sample_query ''one'' 1, sample_query ''two'' 2, sample_query ''three'' 3])
   \<and> albumLimit (limit_options None) = None
   \<and> (\<exists>r. snd (getAlbumTracks (limit_options None) sample_catalog ''7'') = Inr r
          \<and> res_tracks r =
              [sample_query ''one'' 1, sample_query ''two'' 2, sample_query ''three'' 3,
               sample_query ''four'' 4, sample_query ''five'' 5])"
proof -
  have a1: "albumLimit (limit_options (Some 0)) = Some 0"
    and p1: "playlistLimit (limit_options (Some 0)) = Some 0"
    and a0: "albumLimit (limit_options None) = None"
    by (simp_all add: limit_options_def)
  have a2: "get_album sample_catalog (BASE_URL @ ''/album/'' @ ''7'') = Inr sample_album"
    and p2: "get_playlist sample_catalog (BASE_URL @ ''/playlist/'' @ ''123456'') = Inr sample_playlist"
    by (simp_all add: sample_catalog_def BASE_URL_def)
  have a3: "map (\<lambda>t. convertToUnresolved (Some t))
        (filter (\<lambda>t. truthy (title t)) (album_tracks_data sample_album))
      = map Inr [sample_query ''one'' 1, sample_query ''two'' 2, sample_query ''three'' 3,
                 sample_query ''four'' 4, sample_query ''five'' 5]"
    by (simp add: sample_album_def sample_track_def sample_query_def convertToUnresolved_def)
  have p3: "map (\<lambda>t. convertToUnresolved (Some t))
        (filter (\<lambda>t. truthy (title t)) (map track (playlist_tracks_data sample_playlist)))
      = map Inr [sample_query ''one'' 1, sample_query ''two'' 2, sample_query ''three'' 3]"
    by (simp add: sample_playlist_def sample_track_def sample_query_def convertToUnresolved_def)
  from zero_limit_untruncated [where options = "limit_options (Some 0)"
      and cat = sample_catalog and ident = "''7''" and a = sample_album
      and ident' = "''123456''" and p = sample_playlist
      and ns = "[sample_query ''one'' 1, sample_query ''two'' 2, sample_query ''three'' 3,
                 sample_query ''four'' 4, sample_query ''five'' 5]"
      and ms = "[sample_query ''one'' 1, sample_query ''two'' 2, sample_query ''three'' 3]"]
    zero_limit_untruncated [where options = "limit_options None"
      and cat = sample_catalog and ident = "''7''" and a = sample_album
      and ident' = "''123456''" and p = sample_playlist
      and ns = "[sample_query ''one'' 1, sample_query ''two'' 2, sample_query ''three'' 3,
                 sample_query ''four'' 4, sample_query ''five'' 5]"
      and ms = "[sample_query ''one'' 1, sample_query ''two'' 2, sample_query ''three'' 3]"]
    a0 a1 a2 a3 p1 p2 p3
  show ?thesis by simp
qed

subsection \<open>Records without a title\<close>

lemma map_throwing_append:
  "map_throwing f (xs @ ys) =
     (case map_throwing f xs of
        Inl e \<Rightarrow> Inl e
      | Inr as \<Rightarrow> (case map_throwing f ys of Inl e \<Rightarrow> Inl e | Inr bs \<Rightarrow> Inr (as @ bs)))"
  by (induction xs) (simp_all split: sum.splits)

lemma filter_nonnull_append:
  "filter_nonnull (as @ bs) = filter_nonnull as @ filter_nonnull bs"
  by (induction as rule: filter_nonnull.induct) simp_all

lemma convertToUnresolved_fails_iff:
  "isl (convertToUnresolved raw) =
     (case raw of
        None \<Rightarrow> True
      | Some t \<Rightarrow> artist t = None \<or> \<not> truthy (title t) \<or> typeof (title t) \<noteq> ''string'')"
  by (cases raw; simp add: convertToUnresolved_def split: option.splits js_value.splits)

lemma album_result_skip:
  assumes "normalize_titled bad = Inr None"
    and "get_album cat (BASE_URL @ ''/album/'' @ i1) =
           Inr \<lparr>album_name = nm, album_tracks_data = xs @ bad # ys\<rparr>"
    and "get_album cat (BASE_URL @ ''/album/'' @ i2) =
           Inr \<lparr>album_name = nm, album_tracks_data = xs @ ys\<rparr>"
  shows "snd (getAlbumTracks options cat i1) = snd (getAlbumTracks options cat i2)"
  using assms
  by (simp add: getAlbumTracks_def map_throwing_append filter_nonnull_append
      split: sum.splits)

lemma playlist_result_skip:
  assumes "normalize_titled bad = Inr None"
    and "get_playlist cat (BASE_URL @ ''/playlist/'' @ i1) =
           Inr \<lparr>playlist_name = nm, playlist_tracks_data = xs @ \<lparr>track = bad\<rparr> # ys\<rparr>"
    and "get_playlist cat (BASE_URL @ ''/playlist/'' @ i2) =
           Inr \<lparr>playlist_name = nm, playlist_tracks_data = xs @ ys\<rparr>"
  shows "snd (getPlaylistTracks options cat i1) = snd (getPlaylistTracks options cat i2)"
  using assms
  by (simp add: getPlaylistTracks_def map_throwing_append filter_nonnull_append
      split: sum.splits)

text \<open>
  C7 (as amended). A raw track record with the artist present and the title absent or
  empty (any falsy title) is handled differently per call path. In the album fetcher and
  in the playlist fetcher the record is left out without an error and the other records
  are processed as if it were not there: the fetch of the list with the record gives the
  result of the fetch of the list without it. In the single-track fetcher the whole
  fetch fails with the normalizer's error for a missing title. The normalizer fails
  exactly when the record is absent, the artist is absent, the title is falsy (absent,
  or the empty string), or the title is not a string.
\<close>

theorem missing_title_per_path:
  assumes "artist bad \<noteq> None" and "\<not> truthy (title bad)"
  shows "(get_album cat (BASE_URL @ ''/album/'' @ i1) =
            Inr \<lparr>album_name = nm, album_tracks_data = xs @ bad # ys\<rparr>
          \<longrightarrow> get_album cat (BASE_URL @ ''/album/'' @ i2) =
            Inr \<lparr>album_name = nm, album_tracks_data = xs @ ys\<rparr>
          \<longrightarrow> snd (getAlbumTracks options cat i1) = snd (getAlbumTracks options cat i2))
       \<and> (get_playlist cat (BASE_URL @ ''/playlist/'' @ j1) =
            Inr \<lparr>playlist_name = pnm, playlist_tracks_data = pxs @ \<lparr>track = bad\<rparr> # pys\<rparr>
          \<longrightarrow> get_playlist cat (BASE_URL @ ''/playlist/'' @ j2) =
            Inr \<lparr>playlist_name = pnm, playlist_tracks_data = pxs @ pys\<rparr>
          \<longrightarrow> snd (getPlaylistTracks options cat j1) = snd (getPlaylistTracks options cat j2))
       \<and> (get_track cat (BASE_URL @ ''/track/'' @ k) = Inr (Some bad)
          \<longrightarrow> snd (getTrack cat k) = Inl (ReferenceError ''The track title was not provided''))
       \<and> isl (convertToUnresolved raw) =
           (case raw of
              None \<Rightarrow> True
            | Some t \<Rightarrow>
                artist t = None \<or> \<not> truthy (title t) \<or> typeof (title t) \<noteq> ''string'')"
proof -
  from assms(2) have skip: "normalize_titled bad = Inr None"
    by (simp add: normalize_titled_def)
  from assms have single:
    "convertToUnresolved (Some bad) = Inl (ReferenceError ''The track title was not provided'')"
    by (auto simp: convertToUnresolved_def)
  show ?thesis
    using album_result_skip [OF skip] playlist_result_skip [OF skip] single
    by (simp add: getTrack_def convertToUnresolved_fails_iff)
qed

theorem missing_title_per_path_witness:
  "artist untitled_track \<noteq> None \<and> \<not> truthy (title untitled_track)
   \<and> snd (getAlbumTracks (limit_options None) gappy_catalog ''1'')
       = snd (getAlbumTracks (limit_options None) gappy_catalog ''2'')
   \<and> snd (getAlbumTracks (limit_options None) gappy_catalog ''1'')
       = Inr \<lparr>res_tracks = [sample_query ''one'' 1, sample_query ''two'' 2],
              res_name = Some ''Album''\<rparr>
   \<and> snd (getPlaylistTracks (limit_options None) gappy_catalog ''1'')
       = snd (getPlaylistTracks (limit_options None) gappy_catalog ''2'')
   \<and> snd (getPlaylistTracks (limit_options None) gappy_catalog ''1'')
       = Inr \<lparr>res_tracks = [sample_query ''one'' 1, sample_query ''two'' 2],
              res_name = Some ''Untitled playlist''\<rparr>
   \<and> snd (getTrack gappy_catalog ''1'')
       = Inl (ReferenceError ''The track title was not provided'')
   \<and> isl (convertToUnresolved (Some untitled_track))"
proof -
  have h1: "artist untitled_track \<noteq> None" by (simp add: untitled_track_def)
  have h2: "\<not> truthy (title untitled_track)" by (simp add: untitled_track_def)
  have a1: "get_album gappy_catalog (BASE_URL @ ''/album/'' @ ''1'') =
      Inr \<lparr>album_name = Some ''Album'',
           album_tracks_data =
             [sample_track ''one'' 1] @ untitled_track # [sample_track ''two'' 2]\<rparr>"
    by (simp add: gappy_catalog_def BASE_URL_def)
  have a2: "get_album gappy_catalog (BASE_URL @ ''/album/'' @ ''2'') =
      Inr \<lparr>album_name = Some ''Album'',
           album_tracks_data = [sample_track ''one'' 1] @ [sample_track ''two'' 2]\<rparr>"
    by (simp add: gappy_catalog_def BASE_URL_def)
  have p1: "get_playlist gappy_catalog (BASE_URL @ ''/playlist/'' @ ''1'') =
      Inr \<lparr>playlist_name = None,
           playlist_tracks_data =
             [\<lparr>track = sample_track ''one'' 1\<rparr>] @ \<lparr>track = untitled_track\<rparr>
               # [\<lparr>track = sample_track ''two'' 2\<rparr>]\<rparr>"
    by (simp add: gappy_catalog_def BASE_URL_def)
  have p2: "get_playlist gappy_catalog (BASE_URL @ ''/playlist/'' @ ''2'') =
      Inr \<lparr>playlist_name = None,
           playlist_tracks_data =
             [\<lparr>track = sample_track ''one'' 1\<rparr>] @ [\<lparr>track = sample_track ''two'' 2\<rparr>]\<rparr>"
    by (simp add: gappy_catalog_def BASE_URL_def)
  have t1: "get_track gappy_catalog (BASE_URL @ ''/track/'' @ ''1'') = Inr (Some untitled_track)"
    by (simp add: gappy_catalog_def BASE_URL_def)
  have a2v: "snd (getAlbumTracks (limit_options None) gappy_catalog ''2'')
       = Inr \<lparr>res_tracks = [sample_query ''one'' 1, sample_query ''two'' 2],
              res_name = Some ''Album''\<rparr>"
    by (simp add: getAlbumTracks_def a2 [simplified] normalize_titled_def
        convertToUnresolved_def sample_track_def sample_query_def limit_options_def
        apply_limit_def BASE_URL_def gappy_catalog_def)
  have p2v: "snd (getPlaylistTracks (limit_options None) gappy_catalog ''2'')
       = Inr \<lparr>res_tracks = [sample_query ''one'' 1, sample_query ''two'' 2],
              res_name = Some ''Untitled playlist''\<rparr>"
    by (simp add: getPlaylistTracks_def normalize_titled_def
        convertToUnresolved_def sample_track_def sample_query_def limit_options_def
        apply_limit_def BASE_URL_def gappy_catalog_def)
  from missing_title_per_path [OF h1 h2, where cat = gappy_catalog
      and ?i1.0 = "''1''" and ?i2.0 = "''2''" and nm = "Some ''Album''"
      and xs = "[sample_track ''one'' 1]" and ys = "[sample_track ''two'' 2]"
      and ?j1.0 = "''1''" and ?j2.0 = "''2''" and pnm = None
      and pxs = "[\<lparr>track = sample_track ''one'' 1\<rparr>]"
      and pys = "[\<lparr>track = sample_track ''two'' 2\<rparr>]"
      and options = "limit_options None" and k = "''1''"
      and raw = "Some untitled_track"]
    a1 a2 p1 p2 t1 h1 h2 a2v p2v
  show ?thesis by simp
qed

text \<open>
  The claim as first stated, with "the title is absent" for "the title is falsy", fails
  at a record whose title is the empty string: the title is present and is a string, and
  the normalizer throws.
\<close>

theorem normalizer_empty_title_counterexample:
  "isl (convertToUnresolved (Some empty_title_track))
   \<and> \<not> spec_normalize_fails (Some empty_title_track)"
  by (simp add: convertToUnresolved_def empty_title_track_def spec_normalize_fails_def)

section \<open>Properties of the URL classifier\<close>

text \<open>
  Completeness: every string of the specified shape is classified, with the kind and the
  id of the shape. The id is followed by no further digit, so the greedy \<open>\d+\<close> stops
  where the shape says.
\<close>

lemma takeWhile_run:
  assumes "\<forall>c\<in>set i. P c" and "case rest of [] \<Rightarrow> True | c # _ \<Rightarrow> \<not> P c"
  shows "takeWhile P (i @ rest) = i"
  using assms by (induction i) (auto split: list.splits)

lemma rev_upt_from_1: "0 < n \<Longrightarrow> rev [1 ..< Suc n] = n # rev [1 ..< n]"
  by (cases n) simp_all

lemma run_Plus_maximal:
  assumes "i \<noteq> []" and "\<forall>c\<in>set i. in_class k c"
    and "case rest of [] \<Rightarrow> True | c # _ \<Rightarrow> \<not> in_class k c"
  shows "run (Plus k) (i @ rest, c) =
           (rest, c) # map (\<lambda>n. (drop n (i @ rest), c)) (rev [1 ..< length i])"
proof -
  from assms(2,3) have t: "takeWhile (in_class k) (i @ rest) = i"
    by (rule takeWhile_run)
  from assms(1) have "0 < length i" by simp
  then have "rev [1 ..< Suc (length i)] = length i # rev [1 ..< length i]"
    by (rule rev_upt_from_1)
  with t show ?thesis by simp
qed

lemma classify_of_parts:
  assumes scheme: "scheme = [] \<or> scheme = ''http://'' \<or> scheme = ''https://''"
    and www: "www = [] \<or> www = ''www.''"
    and loc: "loc = [] \<or> (\<exists>a b. loc = [a, b, CHR ''/''] \<and> in_class Word a \<and> in_class Word b)"
    and k: "k = ''track'' \<or> k = ''album'' \<or> k = ''playlist''"
    and i: "i \<noteq> []" "\<forall>c\<in>set i. in_class Digit c"
    and rest: "case rest of [] \<Rightarrow> True | c # _ \<Rightarrow> \<not> in_class Digit c"
  shows "classify (scheme @ www @ ''deezer.com/'' @ loc @ k @ ''/'' @ i @ rest) = Some (k, i)"
  using scheme www loc k run_Plus_maximal [OF i rest]
  apply (elim disjE exE conjE)
  apply (simp_all add: classify_def match_type_id_def rx_match_def REGEX_def
          del: in_class.simps run.simps(6))
  done

lemma classify_complete:
  assumes "spec_catalog_url s k i"
  shows "classify s = Some (k, i)"
proof -
  from assms obtain scheme www loc rest where
    s: "s = scheme @ www @ ''deezer.com/'' @ loc @ k @ ''/'' @ i @ rest"
    and scheme: "scheme = [] \<or> scheme = ''http://'' \<or> scheme = ''https://''"
    and www: "www = [] \<or> www = ''www.''"
    and loc: "loc = [] \<or> (\<exists>a b. loc = [a, b, CHR ''/''] \<and> in_class Word a \<and> in_class Word b)"
    and k: "k = ''track'' \<or> k = ''album'' \<or> k = ''playlist''"
    and i: "i \<noteq> []" "\<forall>c\<in>set i. in_class Digit c"
    and rest: "case rest of [] \<Rightarrow> True | c # _ \<Rightarrow> \<not> in_class Digit c"
    unfolding spec_catalog_url_def insert_iff empty_iff by blast
  show ?thesis
    unfolding s by (rule classify_of_parts [OF scheme www loc k i rest])
qed

text \<open>
  Soundness: each success of the matcher consumes a prefix of the specified shape and
  records its kind and id as captures 1 and 2.
\<close>

lemma strip_prefix_Some: "strip_prefix p s = Some r \<longleftrightarrow> s = p @ r"
  by (induction p s rule: strip_prefix.induct) auto

lemma mem_Lit: "(r, c') \<in> set (run (Lit p) (s, c)) \<longleftrightarrow> s = p @ r \<and> c' = c"
proof (cases "strip_prefix p s")
  case None
  then have "s \<noteq> p @ r"
    using strip_prefix_Some [of p s r] by simp
  with None show ?thesis by simp
next
  case (Some r')
  then have "s = p @ r'" by (simp add: strip_prefix_Some)
  with Some show ?thesis by auto
qed

lemma mem_Cls:
  "(r, c') \<in> set (run (Cls k) (s, c)) \<longleftrightarrow> (\<exists>x. s = x # r \<and> in_class k x) \<and> c' = c"
  by (cases s) (auto simp del: in_class.simps)

lemma mem_Seq:
  "(r, c') \<in> set (run (Seq a b) st) \<longleftrightarrow>
     (\<exists>s1 c1. (s1, c1) \<in> set (run a st) \<and> (r, c') \<in> set (run b (s1, c1)))"
  by auto

lemma mem_Alt:
  "x \<in> set (run (Alt a b) st) \<longleftrightarrow> x \<in> set (run a st) \<or> x \<in> set (run b st)"
  by simp

lemma mem_Opt: "x \<in> set (run (Opt a) st) \<longleftrightarrow> x \<in> set (run a st) \<or> x = st"
  by auto

lemma mem_Plus:
  assumes "(r, c') \<in> set (run (Plus k) (s, c))"
  shows "\<exists>w. w \<noteq> [] \<and> (\<forall>x\<in>set w. in_class k x) \<and> s = w @ r \<and> c' = c"
proof -
  from assms obtain n where n: "1 \<le> n" "n \<le> length (takeWhile (in_class k) s)"
    and r: "r = drop n s" and c: "c' = c"
    by auto
  let ?w = "take n s"
  from n have "?w = take n (takeWhile (in_class k) s)"
    by (metis append_eq_conv_conj takeWhile_dropWhile_id take_append take_all_iff
        diff_is_0_eq take_0 append_Nil2)
  then have "set ?w \<subseteq> set (takeWhile (in_class k) s)"
    by (metis set_take_subset)
  then have "\<forall>x\<in>set ?w. in_class k x"
    by (meson set_takeWhileD subsetD)
  moreover from n have "?w \<noteq> []"
    by (metis One_nat_def Suc_le_lessD length_greater_0_conv less_le_trans
        take_eq_Nil takeWhile.simps(1) list.size(3) not_less zero_less_one)
  moreover from r have "s = ?w @ r" by simp
  ultimately show ?thesis using c by blast
qed

lemma mem_Grp:
  "(r, c') \<in> set (run (Grp i a) (s, c)) \<longleftrightarrow>
     (\<exists>c1. (r, c1) \<in> set (run a (s, c)) \<and> c' = c1(i \<mapsto> take (length s - length r) s))"
  by auto

lemma scheme_part:
  assumes "(s1, c1) \<in> set (run (Opt (Alt (Seq (Lit ''http'') (Seq (Opt (Lit ''s'')) (Lit ''://'')))
                                          (Lit ''''))) (s, c))"
  shows "c1 = c \<and> (s = [] @ s1 \<or> s = ''http://'' @ s1 \<or> s = ''https://'' @ s1)"
  using assms by (auto simp add: mem_Opt mem_Alt mem_Seq mem_Lit simp del: run.simps)

lemma www_part:
  assumes "(s1, c1) \<in> set (run (Opt (Lit ''www.'')) (s, c))"
  shows "c1 = c \<and> (s = [] @ s1 \<or> s = ''www.'' @ s1)"
  using assms by (auto simp add: mem_Opt mem_Lit simp del: run.simps)

lemma loc_part:
  assumes "(s1, c1) \<in> set (run (Opt (Seq (Cls Word) (Seq (Cls Word) (Lit ''/'')))) (s, c))"
  shows "c1 = c \<and> (s = [] @ s1 \<or> (\<exists>a b. s = [a, b, CHR ''/''] @ s1 \<and> in_class Word a
                                            \<and> in_class Word b))"
  using assms
  by (auto simp add: mem_Opt mem_Seq mem_Cls mem_Lit simp del: run.simps in_class.simps)

lemma kind_part:
  assumes "(s1, c1) \<in> set (run (Grp 1 (Alt (Lit ''track'') (Alt (Lit ''album'') (Lit ''playlist''))))
                              (s, c))"
  shows "(s = ''track'' @ s1 \<and> c1 = c(1 \<mapsto> ''track''))
       \<or> (s = ''album'' @ s1 \<and> c1 = c(1 \<mapsto> ''album''))
       \<or> (s = ''playlist'' @ s1 \<and> c1 = c(1 \<mapsto> ''playlist''))"
  using assms by (auto simp: mem_Grp mem_Alt mem_Lit simp del: run.simps)

lemma id_part:
  assumes "(r, c') \<in> set (run (Grp 2 (Plus Digit)) (s, c))"
  shows "\<exists>w. w \<noteq> [] \<and> (\<forall>x\<in>set w. in_class Digit x) \<and> s = w @ r \<and> c' = c(2 \<mapsto> w)"
proof -
  from assms obtain c1 where m: "(r, c1) \<in> set (run (Plus Digit) (s, c))"
    and c': "c' = c1(2 \<mapsto> take (length s - length r) s)"
    unfolding mem_Grp by blast
  from mem_Plus [OF m] obtain w where
    w: "w \<noteq> []" "\<forall>x\<in>set w. in_class Digit x" "s = w @ r" "c1 = c" by blast
  with c' have "c' = c(2 \<mapsto> w)" by simp
  with w show ?thesis by blast
qed

lemma REGEX_sound:
  assumes "(r, c') \<in> set (run REGEX (s, Map.empty))"
  shows "\<exists>scheme www loc k i.
           s = scheme @ www @ ''deezer.com/'' @ loc @ k @ ''/'' @ i @ r
           \<and> (scheme = [] \<or> scheme = ''http://'' \<or> scheme = ''https://'')
           \<and> (www = [] \<or> www = ''www.'')
           \<and> (loc = [] \<or> (\<exists>a b. loc = [a, b, CHR ''/''] \<and> in_class Word a \<and> in_class Word b))
           \<and> (k = ''track'' \<or> k = ''album'' \<or> k = ''playlist'')
           \<and> i \<noteq> [] \<and> (\<forall>x\<in>set i. in_class Digit x)
           \<and> c' 1 = Some k \<and> c' 2 = Some i"
proof -
  from assms obtain s1 c1 s2 c2 s3 c3 s4 c4 s5 c5 s6 c6 where
    p1: "(s1, c1) \<in> set (run (Opt (Alt (Seq (Lit ''http'') (Seq (Opt (Lit ''s'')) (Lit ''://'')))
                                          (Lit ''''))) (s, Map.empty))"
    and p2: "(s2, c2) \<in> set (run (Opt (Lit ''www.'')) (s1, c1))"
    and p3: "(s3, c3) \<in> set (run (Lit ''deezer.com/'') (s2, c2))"
    and p4: "(s4, c4) \<in> set (run (Opt (Seq (Cls Word) (Seq (Cls Word) (Lit ''/'')))) (s3, c3))"
    and p5: "(s5, c5) \<in> set (run (Grp 1 (Alt (Lit ''track'') (Alt (Lit ''album'') (Lit ''playlist''))))
                              (s4, c4))"
    and p6: "(s6, c6) \<in> set (run (Lit ''/'') (s5, c5))"
    and p7: "(r, c') \<in> set (run (Grp 2 (Plus Digit)) (s6, c6))"
    unfolding REGEX_def mem_Seq by blast
  from scheme_part [OF p1] obtain scheme where
    q1: "c1 = Map.empty" "s = scheme @ s1"
      "scheme = [] \<or> scheme = ''http://'' \<or> scheme = ''https://''" by metis
  from www_part [OF p2] obtain www where
    q2: "c2 = c1" "s1 = www @ s2" "www = [] \<or> www = ''www.''" by metis
  from p3 have q3: "c3 = c2" "s2 = ''deezer.com/'' @ s3"
    unfolding mem_Lit by blast+
  from loc_part [OF p4] obtain loc where
    q4: "c4 = c3" "s3 = loc @ s4"
      "loc = [] \<or> (\<exists>a b. loc = [a, b, CHR ''/''] \<and> in_class Word a \<and> in_class Word b)"
    by metis
  from kind_part [OF p5] obtain k where
    q5: "k = ''track'' \<or> k = ''album'' \<or> k = ''playlist''" "s4 = k @ s5" "c5 = c4(1 \<mapsto> k)"
    by metis
  from p6 have q6: "c6 = c5" "s5 = ''/'' @ s6"
    unfolding mem_Lit by blast+
  from id_part [OF p7] obtain i where
    q7: "i \<noteq> []" "\<forall>x\<in>set i. in_class Digit x" "s6 = i @ r" "c' = c6(2 \<mapsto> i)"
    by blast
  have "s = scheme @ www @ ''deezer.com/'' @ loc @ k @ ''/'' @ i @ r"
    by (simp only: q1(2) q2(2) q3(2) q4(2) q5(2) q6(2) q7(3))
  moreover have "c' 1 = Some k" "c' 2 = Some i"
    by (simp_all add: q7(4) q6(1) q5(3))
  ultimately show ?thesis
    using q1(3) q2(3) q4(3) q5(1) q7(1,2) by blast
qed

lemma classify_sound:
  assumes "classify s = Some (k, i)"
  shows "spec_catalog_url s k i"
proof -
  from assms obtain c where c: "rx_match REGEX s = Some c" "c 1 = Some k" "c 2 = Some i"
    unfolding classify_def match_type_id_def
    by (auto split: option.splits prod.splits)
  then obtain r more where "run REGEX (s, Map.empty) = (r, c) # more"
    unfolding rx_match_def by (auto split: list.splits)
  then have "(r, c) \<in> set (run REGEX (s, Map.empty))" by simp
  from REGEX_sound [OF this] obtain scheme www loc k' i' where
    s0: "s = scheme @ www @ ''deezer.com/'' @ loc @ k' @ ''/'' @ i' @ r"
    and scheme: "scheme = [] \<or> scheme = ''http://'' \<or> scheme = ''https://''"
    and www: "www = [] \<or> www = ''www.''"
    and loc: "loc = [] \<or> (\<exists>a b. loc = [a, b, CHR ''/''] \<and> in_class Word a \<and> in_class Word b)"
    and k0: "k' = ''track'' \<or> k' = ''album'' \<or> k' = ''playlist''"
    and i0: "i' \<noteq> []" "\<forall>x\<in>set i'. in_class Digit x"
    and caps: "c 1 = Some k'" "c 2 = Some i'"
    by blast
  from caps c(2,3) have same: "k' = k" "i' = i" by simp_all
  note s = s0 [unfolded same] and k = k0 [unfolded same] and i = i0 [unfolded same]
  define j where "j = i @ takeWhile (in_class Digit) r"
  define rest where "rest = dropWhile (in_class Digit) r"
  have "i @ r = j @ rest"
    by (simp add: j_def rest_def)
  with s have s': "s = scheme @ www @ ''deezer.com/'' @ loc @ k @ ''/'' @ j @ rest"
    by (simp only:)
  from i(1) have j1: "j \<noteq> []"
    by (simp add: j_def)
  have j2: "\<forall>x\<in>set j. in_class Digit x"
  proof
    fix x
    assume "x \<in> set j"
    then have "x \<in> set i \<or> x \<in> set (takeWhile (in_class Digit) r)"
      by (simp add: j_def)
    with i(2) show "in_class Digit x"
      by (blast dest: set_takeWhileD)
  qed
  note j = j1 j2
  have rest: "case rest of [] \<Rightarrow> True | x # _ \<Rightarrow> \<not> in_class Digit x"
  proof (cases rest)
    case Nil
    then show ?thesis by simp
  next
    case (Cons x xs)
    then have "\<not> in_class Digit (hd (dropWhile (in_class Digit) r))"
      unfolding rest_def by (metis hd_dropWhile list.distinct(1))
    with Cons show ?thesis by (simp add: rest_def del: in_class.simps)
  qed
  have "classify s = Some (k, j)"
    unfolding s' by (rule classify_of_parts [OF scheme www loc k j rest])
  with assms have "j = i" by simp
  then have "takeWhile (in_class Digit) r = []"
    by (simp add: j_def)
  then have "rest = r"
    unfolding rest_def by (metis append_Nil takeWhile_dropWhile_id)
  with rest have r: "case r of [] \<Rightarrow> True | x # _ \<Rightarrow> \<not> in_class Digit x"
    by (simp only:)
  from scheme have scheme': "scheme \<in> {[], ''http://'', ''https://''}" by blast
  from www have www': "www \<in> {[], ''www.''}" by blast
  from k have k': "k \<in> {''track'', ''album'', ''playlist''}" by blast
  show ?thesis
    unfolding spec_catalog_url_def
    apply (rule exI [of _ scheme], rule exI [of _ www], rule exI [of _ loc], rule exI [of _ r])
    apply (intro conjI s scheme' www' loc k' i r)
    done
qed

lemma classify_iff: "classify s = Some (k, i) \<longleftrightarrow> spec_catalog_url s k i"
  using classify_sound classify_complete by blast

lemma classify_None_iff: "classify s = None \<longleftrightarrow> (\<forall>k i. \<not> spec_catalog_url s k i)"
proof
  assume none: "classify s = None"
  show "\<forall>k i. \<not> spec_catalog_url s k i"
  proof (intro allI notI)
    fix k i
    assume "spec_catalog_url s k i"
    then have "classify s = Some (k, i)" by (rule classify_complete)
    with none show False by simp
  qed
next
  assume "\<forall>k i. \<not> spec_catalog_url s k i"
  then have "\<And>k i. classify s \<noteq> Some (k, i)"
    using classify_sound by blast
  then show "classify s = None"
    by (cases "classify s") auto
qed

lemma unmatched_type_id:
  assumes "classify s = None"
  shows "match_type_id s = (None, None)"
proof (cases "rx_match REGEX s")
  case None
  then show ?thesis by (simp add: match_type_id_def)
next
  case (Some c)
  then obtain r more where "run REGEX (s, Map.empty) = (r, c) # more"
    unfolding rx_match_def by (auto split: list.splits)
  then have "(r, c) \<in> set (run REGEX (s, Map.empty))" by simp
  from REGEX_sound [OF this] obtain k i where "c 1 = Some k" "c 2 = Some i" by blast
  with Some assms show ?thesis
    by (simp add: classify_def match_type_id_def)
qed

section \<open>Properties of the search interceptor\<close>

text \<open>
  The three ways through \<open>search\<close> for a usable query: no match and delegation, a match
  whose fetcher throws, and a match whose fetcher returns.
\<close>

lemma dom_plugin_functions:
  "dom (plugin_functions options cat) = {''track'', ''album'', ''playlist''}"
  by (auto simp: plugin_functions_def)

lemma match_type_id_empty: "match_type_id [] = (None, None)"
  by (simp add: match_type_id_def rx_match_def REGEX_def)

lemma search_matched:
  assumes "match_type_id (query_text query) = (Some k, x)"
  shows "search options cat resolve host query requester
         = search_string options cat resolve host query requester (query_text query)"
proof (cases query)
  case (QString s)
  then show ?thesis by (simp add: search_def query_text_def)
next
  case (QObject source text')
  with assms have "text' \<noteq> []"
    by (auto simp: query_text_def match_type_id_empty)
  with QObject show ?thesis by (simp add: search_def query_text_def)
qed

lemma delegation_when_unmatched:
  assumes "classify (query_text query) = None"
    and "(\<exists>s. query = QString s) \<or> query_text query \<noteq> []"
  shows "search options cat resolve host query requester
         = ([], Delegated (host query requester))"
proof -
  from assms(2) have "search options cat resolve host query requester
         = search_string options cat resolve host query requester (query_text query)"
    by (cases query) (auto simp: search_def query_text_def)
  moreover have "to_string None \<notin> dom (plugin_functions options cat)"
    by (simp add: dom_plugin_functions)
  ultimately show ?thesis
    using unmatched_type_id [OF assms(1)] by (simp add: search_string_def)
qed

lemma search_string_fetch_failed:
  assumes "match_type_id q = (Some k, Some i)"
    and "plugin_functions options cat k = Some func"
    and "func i = (reqs, Inl e)"
  shows "search_string options cat resolve host query requester q =
           (reqs, Built \<lparr>loadType = (case err_loadType e of None \<Rightarrow> ''LOAD_FAILED'' | Some l \<Rightarrow> l),
                  tracks = [], playlist = None,
                  exception = (if truthy_string (err_message e)
                               then Some \<lparr>message = to_string (err_message e),
                                          severity = ''COMMON''\<rparr>
                               else None)\<rparr>)"
proof -
  from assms(2) have "k \<in> dom (plugin_functions options cat)" by blast
  with assms show ?thesis
    by (simp add: search_string_def try_block_def buildSearch_def)
qed


lemma search_string_never_raises:
  "snd (search_string options cat resolve host query requester q) \<noteq> Raised e"
proof -
  obtain ty i where m: "match_type_id q = (ty, i)" by (cases "match_type_id q")
  show ?thesis
  proof (cases "to_string ty \<in> dom (plugin_functions options cat)")
    case False
    with m show ?thesis by (simp add: search_string_def)
  next
    case True
    obtain reqs res where t: "try_block options cat resolve ty i requester = (reqs, res)"
      by (cases "try_block options cat resolve ty i requester")
    show ?thesis
    proof (cases res)
      case (Inr r)
      with m True t show ?thesis by (simp add: search_string_def)
    next
      case (Inl x)
      obtain r where "buildSearch
              (case err_loadType x of None \<Rightarrow> ''LOAD_FAILED'' | Some l \<Rightarrow> l)
              (None :: 'a unresolved_track list option) (err_message x) None = Inr r"
        using buildSearch_no_tracks_no_name by blast
      with Inl m True t show ?thesis by (simp add: search_string_def)
    qed
  qed
qed

subsection \<open>Classification\<close>

text \<open>
  C8. The URL classifier extracts the same kind and numeric id from the fully qualified
  form, with scheme, \<open>www.\<close> and a two-letter locale segment, as from the bare-host form
  of the same entity, and both are the kind and id written in the URL. It returns a pair
  exactly for the strings of the specified shape and none for every other string, and no
  string input makes the interceptor throw.
\<close>

theorem classifier_forms_and_totality:
  assumes "k \<in> {''track'', ''album'', ''playlist''}"
    and "i \<noteq> []" and "\<forall>c\<in>set i. in_class Digit c"
    and "case rest of [] \<Rightarrow> True | c # _ \<Rightarrow> \<not> in_class Digit c"
    and "in_class Word a" and "in_class Word b"
  shows "classify (''https://www.deezer.com/'' @ [a, b] @ ''/'' @ k @ ''/'' @ i @ rest) = Some (k, i)
       \<and> classify (''deezer.com/'' @ k @ ''/'' @ i @ rest) = Some (k, i)
       \<and> (classify s = Some (k', i')) = spec_catalog_url s k' i'
       \<and> (classify s = None) = (\<forall>k' i'. \<not> spec_catalog_url s k' i')
       \<and> snd (search options cat resolve host (QString s) requester) \<noteq> Raised e"
proof -
  from assms(1) have k: "k = ''track'' \<or> k = ''album'' \<or> k = ''playlist''" by blast
  have "classify (''https://'' @ ''www.'' @ ''deezer.com/'' @ [a, b, CHR ''/''] @ k @ ''/'' @ i @ rest)
          = Some (k, i)"
    using assms(5,6) by (intro classify_of_parts k assms(2,3,4)) blast+
  then have full: "classify (''https://www.deezer.com/'' @ [a, b] @ ''/'' @ k @ ''/'' @ i @ rest)
          = Some (k, i)"
    by simp
  have "classify ([] @ [] @ ''deezer.com/'' @ [] @ k @ ''/'' @ i @ rest) = Some (k, i)"
    by (intro classify_of_parts k assms(2,3,4)) blast+
  then have bare: "classify (''deezer.com/'' @ k @ ''/'' @ i @ rest) = Some (k, i)"
    by simp
  have "snd (search options cat resolve host (QString s) requester) \<noteq> Raised e"
    by (simp add: search_def search_string_never_raises)
  with full bare show ?thesis
    by (simp only: classify_iff classify_None_iff simp_thms)
qed

theorem classifier_forms_and_totality_witness:
  "classify ''https://www.deezer.com/fr/playlist/123456'' = Some (''playlist'', ''123456'')
   \<and> classify ''deezer.com/playlist/123456'' = Some (''playlist'', ''123456'')
   \<and> classify ''https://www.deezer.com/de/album/7'' = Some (''album'', ''7'')
   \<and> classify ''deezer.com/album/7'' = Some (''album'', ''7'')
   \<and> classify ''never gonna give you up'' = None
   \<and> snd (search (limit_options None) sample_catalog failing_resolver sample_host
            (QString ''never gonna give you up'') ''user'')
       = Delegated (QString ''never gonna give you up'', ''user'')"
proof -
  have p: "''playlist'' \<in> {''track'', ''album'', ''playlist''}" "''123456'' \<noteq> []"
    "\<forall>c\<in>set ''123456''. in_class Digit c"
    "case [] of [] \<Rightarrow> True | c # _ \<Rightarrow> \<not> in_class Digit c"
    "in_class Word CHR ''f''" "in_class Word CHR ''r''"
    by simp_all
  have q: "''album'' \<in> {''track'', ''album'', ''playlist''}" "''7'' \<noteq> []"
    "\<forall>c\<in>set ''7''. in_class Digit c"
    "in_class Word CHR ''d''" "in_class Word CHR ''e''"
    by simp_all
  have n: "classify ''never gonna give you up'' = None"
    by (simp add: classify_def match_type_id_def rx_match_def REGEX_def)
  have d: "snd (search (limit_options None) sample_catalog failing_resolver sample_host
            (QString ''never gonna give you up'') ''user'')
       = Delegated (QString ''never gonna give you up'', ''user'')"
    using n by (simp add: delegation_when_unmatched query_text_def sample_host_def)
  from classifier_forms_and_totality [OF p, where s = "''never gonna give you up''"
      and k' = "''track''" and i' = "''1''" and options = "limit_options None"
      and cat = sample_catalog and resolve = failing_resolver and host = sample_host
      and requester = "''user''" and e = "TypeError []"]
    classifier_forms_and_totality [OF q(1-3) p(4) q(4,5), where s = "''never gonna give you up''"
      and k' = "''track''" and i' = "''1''" and options = "limit_options None"
      and cat = sample_catalog and resolve = failing_resolver and host = sample_host
      and requester = "''user''" and e = "TypeError []"]
    n d
  show ?thesis by simp
qed

subsection \<open>Delegation\<close>

text \<open>
  C1. A query whose string does not match the pattern is to be delegated to the host's
  search. The interceptor does so for every string query and for every structured query
  with non-empty text (\<open>delegation_when_unmatched\<close>), making no request and building no
  result. For a structured query whose text is the empty string it does not: the text
  matches no catalog URL, \<open>query.query || query\<close> is then the query object, which has no
  \<open>match\<close> method, and \<open>search\<close> throws a \<open>TypeError\<close> without calling the host's
  search.
\<close>

theorem empty_structured_query_raises:
  "classify (query_text (QObject source [])) = None
   \<and> search options cat resolve host (QObject source []) requester
       = ([], Raised (TypeError ''finalQuery.match is not a function''))"
  by (simp add: search_def query_text_def classify_def match_type_id_empty)

theorem empty_structured_query_raises_witness:
  "classify (query_text (QObject None [])) = None
   \<and> search (limit_options None) sample_catalog failing_resolver sample_host
         (QObject None []) ''user''
       = ([], Raised (TypeError ''finalQuery.match is not a function''))
   \<and> sample_host (QObject None []) ''user'' = (QObject None [], ''user'')"
  using empty_structured_query_raises [of None "limit_options None" sample_catalog
      failing_resolver sample_host "''user''"]
  by (simp add: sample_host_def)

subsection \<open>The error boundary\<close>

text \<open>
  C2 (as amended). For every matched catalog URL whose fetcher throws, the search
  interceptor returns an outcome it built, and no exception leaves it: the outcome's
  load type is the thrown failure's own \<open>loadType\<close> when it has one and \<open>LOAD_FAILED\<close>
  otherwise, its tracks are empty, it has no playlist summary, and its failure field
  carries the thrown failure's message with severity \<open>COMMON\<close> when that message is
  present and not empty; when the failure has no message or an empty one, the failure
  field is absent.
\<close>

theorem fetch_failure_outcome:
  assumes "match_type_id (query_text query) = (Some k, Some i)"
    and "plugin_functions options cat k = Some func"
    and "snd (func i) = Inl e"
  shows "snd (search options cat resolve host query requester) =
           Built \<lparr>loadType = (case err_loadType e of None \<Rightarrow> ''LOAD_FAILED'' | Some l \<Rightarrow> l),
                  tracks = [], playlist = None,
                  exception = (if truthy_string (err_message e)
                               then Some \<lparr>message = to_string (err_message e),
                                          severity = ''COMMON''\<rparr>
                               else None)\<rparr>"
proof -
  from assms(3) have "func i = (fst (func i), Inl e)" by (simp add: prod_eq_iff)
  then show ?thesis
    by (simp add: search_matched [OF assms(1)] search_string_fetch_failed [OF assms(1,2)])
qed

theorem fetch_failure_outcome_witness:
  "match_type_id (query_text (QString ''deezer.com/album/8'')) = (Some ''album'', Some ''8'')
   \<and> plugin_functions (limit_options None) sample_catalog ''album''
       = Some (getAlbumTracks (limit_options None) sample_catalog)
   \<and> snd (getAlbumTracks (limit_options None) sample_catalog ''8'') = Inl not_found
   \<and> snd (search (limit_options None) sample_catalog failing_resolver sample_host
            (QString ''deezer.com/album/8'') ''user'') =
         Built \<lparr>loadType = ''LOAD_FAILED'', tracks = [], playlist = None,
                exception = Some \<lparr>message = ''Request failed with status code 404'',
                                   severity = ''COMMON''\<rparr>\<rparr>"
proof -
  have h1: "match_type_id (query_text (QString ''deezer.com/album/8'')) = (Some ''album'', Some ''8'')"
    by (simp add: query_text_def match_type_id_def rx_match_def REGEX_def)
  have h2: "plugin_functions (limit_options None) sample_catalog ''album''
       = Some (getAlbumTracks (limit_options None) sample_catalog)"
    by (simp add: plugin_functions_def)
  have h3: "snd (getAlbumTracks (limit_options None) sample_catalog ''8'') = Inl not_found"
    by (simp add: getAlbumTracks_def sample_catalog_def BASE_URL_def)
  from fetch_failure_outcome [OF h1 h2 h3, of failing_resolver sample_host "''user''"] h1 h2 h3
  show ?thesis by (simp add: not_found_def)
qed

text \<open>
  The claim as first stated, with the failure field always carrying the message, fails
  for a failure whose message is the empty string: the outcome is \<open>LOAD_FAILED\<close> with
  no failure field.
\<close>

theorem empty_message_counterexample:
  "match_type_id (query_text (QString ''deezer.com/track/1'')) = (Some ''track'', Some ''1'')
   \<and> snd (getTrack silent_catalog ''1'') = Inl (Rejection (Some []) None)
   \<and> snd (search (limit_options None) silent_catalog failing_resolver sample_host
            (QString ''deezer.com/track/1'') ''user'') =
         Built \<lparr>loadType = ''LOAD_FAILED'', tracks = [], playlist = None, exception = None\<rparr>"
proof -
  have h1: "match_type_id (query_text (QString ''deezer.com/track/1'')) = (Some ''track'', Some ''1'')"
    by (simp add: query_text_def match_type_id_def rx_match_def REGEX_def)
  have h2: "plugin_functions (limit_options None) silent_catalog ''track''
       = Some (getTrack silent_catalog)"
    by (simp add: plugin_functions_def)
  have h3: "snd (getTrack silent_catalog ''1'') = Inl (Rejection (Some []) None)"
    by (simp add: getTrack_def silent_catalog_def)
  have h3': "getTrack silent_catalog ''1''
    = (fst (getTrack silent_catalog ''1''), Inl (Rejection (Some []) None))"
    using h3 by (simp add: prod_eq_iff)
  from h1 h3 show ?thesis
    by (simp add: search_matched [OF h1] search_string_fetch_failed [OF h1 h2 h3'])
qed

subsection \<open>Outcomes of a successful fetch\<close>










end
